theory Spec2Isabelle
  imports
    Complex_Main
    "HOL-Library.Char_ord"
    "HOL-Library.List_Lexorder"
    "HOL-Library.AList"
    "HOL-Library.Multiset"
begin

section \<open>External sort of a delimited text file (external\_sort.py)\<close>

text \<open>
  A shallow embedding of \<^verbatim>\<open>external_sort.py\<close>. Python strings are \<open>string\<close>s, one
  \<open>char\<close> per character (files over 8-bit code points), so that \<open>length\<close> is Python's
  \<^verbatim>\<open>len\<close> and the order of \<open>HOL-Library.Char_ord\<close> with \<open>HOL-Library.List_Lexorder\<close> is
  Python's comparison of strings and of lists of strings. Python integers are \<open>int\<close>; the
  size threshold, a float or an integer in the source, is a \<open>rat\<close> (every finite float is
  one, and Python compares an integer with a float exactly). Every exception the source
  can raise is a value of \<open>py_error\<close>; a function with effects takes the file system and
  returns its result together with the file system it leaves behind, also when it fails.

  The library functions the source calls are modelled after CPython 3.11 on a POSIX
  system: text files, \<^verbatim>\<open>os\<close>, \<^verbatim>\<open>str\<close>, \<^verbatim>\<open>list.sort\<close>, the \<^verbatim>\<open>csv\<close> module with its
  default dialect, \<^verbatim>\<open>heapq.merge\<close> and \<^verbatim>\<open>multiprocessing.Pool\<close>. Two things the source
  does not determine are parameters of the model: the digest function \<^verbatim>\<open>hashlib.md5\<close>
  (\<open>md5\<close>) and the order in which \<^verbatim>\<open>os.listdir\<close> lists a directory (\<open>lsord\<close>).
\<close>

subsection \<open>Exceptions\<close>

datatype py_error =
    FileExistsError
  | FileNotFoundError
  | OSError
  | AttributeError
  | IndexError
  | KeyError
  | TypeError
  | ValueError
  | CsvError

subsection \<open>Characters, lines and text files\<close>

definition LF :: char where
  "LF = CHR 0x0A"

definition CR :: char where
  "CR = CHR 0x0D"

text \<open>
  A file opened in text mode with the default \<^verbatim>\<open>newline=None\<close> is read with universal
  newlines: \<^verbatim>\<open>\r\n\<close> and a lone \<^verbatim>\<open>\r\<close> arrive as \<^verbatim>\<open>\n\<close>. Written text is stored
  as it is (the line separator of a POSIX system is \<^verbatim>\<open>\n\<close>).
\<close>

fun universal_newlines :: "string \<Rightarrow> string" where
  "universal_newlines [] = []"
| "universal_newlines [c] = (if c = CR then [LF] else [c])"
| "universal_newlines (c # d # cs) =
     (if c = CR then
        (if d = LF then LF # universal_newlines cs else LF # universal_newlines (d # cs))
      else c # universal_newlines (d # cs))"

text \<open>
  The lines a text file yields, by \<^verbatim>\<open>readline\<close> or by iteration: each ends with its
  \<^verbatim>\<open>\n\<close>, but for a last line the file does not terminate. No line is empty.
\<close>

fun lines_of :: "string \<Rightarrow> string list" where
  "lines_of [] = []"
| "lines_of (c # cs) =
     (if c = LF then [c] # lines_of cs
      else (case lines_of cs of [] \<Rightarrow> [[c]] | l # ls \<Rightarrow> (c # l) # ls))"

subsection \<open>The file system\<close>

text \<open>
  The files outside the workspace, by the path they are opened with, and the workspace
  directory \<^verbatim>\<open>./.tmp\<close>: \<open>None\<close> while it does not exist, otherwise its entries (file
  name and content). The workspace is flat; a path \<^verbatim>\<open>./.tmp/<name>\<close> names its entry
  \<^verbatim>\<open><name>\<close>, any other path names a file outside.
\<close>

record fsys =
  outside :: "string \<rightharpoonup> string"
  workspace :: "(string \<times> string) list option"

datatype loc = Tmp string | Out string

definition resolve :: "string \<Rightarrow> loc" where
  "resolve p =
     (if take 7 p = ''./.tmp/'' \<and> drop 7 p \<noteq> [] \<and> CHR ''/'' \<notin> set (drop 7 p)
      then Tmp (drop 7 p) else Out p)"

definition read_file :: "string \<Rightarrow> fsys \<Rightarrow> py_error + string" where
  "read_file p s =
     (case resolve p of
        Tmp n \<Rightarrow>
          (case workspace s of
             None \<Rightarrow> Inl FileNotFoundError
           | Some es \<Rightarrow>
               (case map_of es n of None \<Rightarrow> Inl FileNotFoundError | Some c \<Rightarrow> Inr c))
      | Out q \<Rightarrow>
          (case outside s q of None \<Rightarrow> Inl FileNotFoundError | Some c \<Rightarrow> Inr c))"

text \<open>\<^verbatim>\<open>open(p, 'w')\<close>, the writes and the close, as one step: the file holds \<open>c\<close>.\<close>

definition write_file :: "string \<Rightarrow> string \<Rightarrow> fsys \<Rightarrow> py_error + fsys" where
  "write_file p c s =
     (case resolve p of
        Tmp n \<Rightarrow>
          (case workspace s of
             None \<Rightarrow> Inl FileNotFoundError
           | Some es \<Rightarrow> Inr (s\<lparr>workspace := Some (AList.update n c es)\<rparr>))
      | Out q \<Rightarrow> Inr (s\<lparr>outside := (outside s)(q \<mapsto> c)\<rparr>))"

definition os_remove :: "string \<Rightarrow> fsys \<Rightarrow> py_error + fsys" where
  "os_remove p s =
     (case resolve p of
        Tmp n \<Rightarrow>
          (case workspace s of
             None \<Rightarrow> Inl FileNotFoundError
           | Some es \<Rightarrow>
               (case map_of es n of
                  None \<Rightarrow> Inl FileNotFoundError
                | Some c \<Rightarrow> Inr (s\<lparr>workspace := Some (AList.delete n es)\<rparr>)))
      | Out q \<Rightarrow>
          (case outside s q of
             None \<Rightarrow> Inl FileNotFoundError
           | Some c \<Rightarrow> Inr (s\<lparr>outside := (outside s)(q := None)\<rparr>)))"

text \<open>\<^verbatim>\<open>os.makedirs('./.tmp')\<close> fails when the directory is there already.\<close>

definition os_makedirs :: "fsys \<Rightarrow> py_error + fsys" where
  "os_makedirs s =
     (case workspace s of
        None \<Rightarrow> Inr (s\<lparr>workspace := Some []\<rparr>)
      | Some es \<Rightarrow> Inl FileExistsError)"

text \<open>
  \<^verbatim>\<open>os.listdir('./.tmp/')\<close> returns the names in an order the source does not control:
  the order is the parameter \<open>lsord\<close>, a function of the names of the entries (two
  listings of the same directory agree); where \<open>lsord\<close> does not rearrange the names it
  is given, they are listed as they are stored.
\<close>

definition arrange :: "(string list \<Rightarrow> string list) \<Rightarrow> string list \<Rightarrow> string list" where
  "arrange lsord names = (if mset (lsord names) = mset names then lsord names else names)"

definition os_listdir :: "(string list \<Rightarrow> string list) \<Rightarrow> fsys \<Rightarrow> py_error + string list" where
  "os_listdir lsord s =
     (case workspace s of
        None \<Rightarrow> Inl FileNotFoundError
      | Some es \<Rightarrow> Inr (arrange lsord (map fst es)))"

definition os_rmdir :: "fsys \<Rightarrow> py_error + fsys" where
  "os_rmdir s =
     (case workspace s of
        None \<Rightarrow> Inl FileNotFoundError
      | Some es \<Rightarrow> (if es = [] then Inr (s\<lparr>workspace := None\<rparr>) else Inl OSError))"

definition os_rename :: "string \<Rightarrow> string \<Rightarrow> fsys \<Rightarrow> py_error + fsys" where
  "os_rename src dst s =
     (case read_file src s of
        Inl e \<Rightarrow> Inl e
      | Inr c \<Rightarrow>
          (case os_remove src s of
             Inl e \<Rightarrow> Inl e
           | Inr s1 \<Rightarrow> write_file dst c s1))"

subsection \<open>Strings\<close>

text \<open>\<^verbatim>\<open>'{0}'.format(n)\<close> for a natural number: its decimal digits.\<close>

definition digit_char :: "nat \<Rightarrow> char" where
  "digit_char d = ''0123456789'' ! d"

function str_nat :: "nat \<Rightarrow> string" where
  "str_nat n = (if n < 10 then [digit_char n] else str_nat (n div 10) @ [digit_char (n mod 10)])"
  by pat_completeness auto
termination
  by (relation "measure (\<lambda>n. n)") auto

declare str_nat.simps [simp del]

subsection \<open>The partitioner: create\_temp\_files\<close>

text \<open>The local variables of \<^verbatim>\<open>create_temp_files\<close>; \<open>cur_file\<close> is the source's
  \<^verbatim>\<open>write_file\<close>: the path of the open chunk file, \<open>None\<close> when none is open.\<close>

record part_state =
  data :: string
  file_num :: nat
  temp_files :: "string list"
  cur_file :: "string option"
  header_cols :: "string option"

definition split_name :: "nat \<Rightarrow> string" where
  "split_name n = ''./.tmp/split'' @ str_nat n @ ''.csv''"

text \<open>
  The body of the \<^verbatim>\<open>while True\<close> loop, once per line read; the loop ends at the empty
  string \<^verbatim>\<open>readline\<close> returns at the end of the file. \<^verbatim>\<open>not header_cols\<close> holds of
  \<^verbatim>\<open>None\<close> and of the empty string.
\<close>

fun split_rows ::
  "rat \<Rightarrow> bool \<Rightarrow> string list \<Rightarrow> part_state \<Rightarrow> fsys \<Rightarrow> (py_error + part_state) \<times> fsys" where
  "split_rows threshold header [] st s = (Inr st, s)"
| "split_rows threshold header (row # rows) st s =
     (if header \<and> (header_cols st = None \<or> header_cols st = Some [])
      then split_rows threshold header rows (st\<lparr>header_cols := Some row\<rparr>) s
      else
        (case
           (case cur_file st of
              None \<Rightarrow>
                (let file_name = split_name (file_num st) in
                 case write_file file_name [] s of
                   Inl e \<Rightarrow> (Inl e, s)
                 | Inr s1 \<Rightarrow>
                     (Inr (st\<lparr>temp_files := temp_files st @ [file_name],
                              cur_file := Some file_name\<rparr>), s1))
            | Some f \<Rightarrow> (Inr st, s))
         of
           (Inl e, s1) \<Rightarrow> (Inl e, s1)
         | (Inr st1, s1) \<Rightarrow>
             (let st2 = st1\<lparr>data := data st1 @ row\<rparr> in
              if threshold \<le> of_nat (length (data st2)) then
                (case write_file (the (cur_file st2)) (data st2) s1 of
                   Inl e \<Rightarrow> (Inl e, s1)
                 | Inr s2 \<Rightarrow>
                     split_rows threshold header rows
                       (st2\<lparr>file_num := file_num st2 + 1, data := [], cur_file := None\<rparr>) s2)
              else split_rows threshold header rows st2 s1)))"

definition create_temp_files ::
  "string \<Rightarrow> rat \<Rightarrow> bool \<Rightarrow> fsys \<Rightarrow> (py_error + string list \<times> string option) \<times> fsys" where
  "create_temp_files file_loc max_size header s =
     (let threshold = max_size * 1048576 in
      case os_makedirs s of
        Inl e \<Rightarrow> (Inl e, s)
      | Inr s1 \<Rightarrow>
          (case read_file file_loc s1 of
             Inl e \<Rightarrow> (Inl e, s1)
           | Inr content \<Rightarrow>
               (case split_rows threshold header (lines_of (universal_newlines content))
                       \<lparr>data = [], file_num = 0, temp_files = [], cur_file = None,
                        header_cols = None\<rparr> s1 of
                  (Inl e, s2) \<Rightarrow> (Inl e, s2)
                | (Inr st, s2) \<Rightarrow>
                    (case cur_file st of
                       None \<Rightarrow> (Inr (temp_files st, header_cols st), s2)
                     | Some f \<Rightarrow>
                         (case write_file f (data st) s2 of
                            Inl e \<Rightarrow> (Inl e, s2)
                          | Inr s3 \<Rightarrow> (Inr (temp_files st, header_cols st), s3))))))"

subsection \<open>Strings: split, join, strip\<close>

text \<open>\<^verbatim>\<open>s.split(sep)\<close> cuts at the occurrences of \<open>sep\<close> found from the left;
  an empty separator is a \<^verbatim>\<open>ValueError\<close>.\<close>

function split_aux :: "string \<Rightarrow> string \<Rightarrow> string \<Rightarrow> string list" where
  "split_aux sep acc [] = [acc]"
| "split_aux sep acc (c # cs) =
     (if sep \<noteq> [] \<and> take (length sep) (c # cs) = sep
      then acc # split_aux sep [] (drop (length sep) (c # cs))
      else split_aux sep (acc @ [c]) cs)"
  by pat_completeness auto
termination
  by (relation "measure (\<lambda>(sep, acc, s). length s)") auto

definition py_split :: "string \<Rightarrow> string \<Rightarrow> py_error + string list" where
  "py_split s sep = (if sep = [] then Inl ValueError else Inr (split_aux sep [] s))"

fun py_join :: "string \<Rightarrow> string list \<Rightarrow> string" where
  "py_join sep [] = []"
| "py_join sep [x] = x"
| "py_join sep (x # y # xs) = x @ sep @ py_join sep (y # xs)"

text \<open>The characters \<^verbatim>\<open>str.isspace\<close> accepts, among the 8-bit code points.\<close>

definition is_space :: "char \<Rightarrow> bool" where
  "is_space c =
     (of_char c \<in> {9, 10, 11, 12, 13, 28, 29, 30, 31, 32, 133, 160 :: nat})"

definition py_strip :: "string \<Rightarrow> string" where
  "py_strip s = rev (dropWhile is_space (rev (dropWhile is_space s)))"

text \<open>\<^verbatim>\<open>xs[i]\<close>: a negative index counts from the end; out of range is an
  \<^verbatim>\<open>IndexError\<close>.\<close>

definition py_index :: "'a list \<Rightarrow> int \<Rightarrow> py_error + 'a" where
  "py_index xs i =
     (if 0 \<le> i \<and> i < int (length xs) then Inr (xs ! nat i)
      else if i < 0 \<and> - int (length xs) \<le> i then Inr (xs ! nat (i + int (length xs)))
      else Inl IndexError)"

subsection \<open>The csv module: reader and writer of the default dialect\<close>

text \<open>
  \<^verbatim>\<open>csv.reader\<close> and \<^verbatim>\<open>csv.writer\<close> with the dialect \<^verbatim>\<open>excel\<close> and the delimiter
  given: quote character \<^verbatim>\<open>"\<close>, doubled inside a quoted field, no escape character,
  minimal quoting, not strict, line terminator \<^verbatim>\<open>\r\n\<close>. The reader is the state
  machine of the module: one character at a time, and an end-of-line mark after each
  line.
\<close>

definition quotechar :: char where
  "quotechar = CHR 0x22"

definition field_limit :: nat where
  "field_limit = 131072"

datatype parser_state =
  START_RECORD | START_FIELD | IN_FIELD | IN_QUOTED_FIELD | QUOTE_IN_QUOTED_FIELD | EAT_CRNL

datatype csv_char = Chr char | EOL

record reader =
  state :: parser_state
  rec_fields :: "string list"
  cur_field :: string

definition parse_reset :: reader where
  "parse_reset = \<lparr>state = START_RECORD, rec_fields = [], cur_field = []\<rparr>"

definition parse_save_field :: "reader \<Rightarrow> reader" where
  "parse_save_field r = r\<lparr>rec_fields := rec_fields r @ [cur_field r], cur_field := []\<rparr>"

definition parse_add_char :: "reader \<Rightarrow> char \<Rightarrow> py_error + reader" where
  "parse_add_char r c =
     (if field_limit \<le> length (cur_field r) then Inl CsvError
      else Inr (r\<lparr>cur_field := cur_field r @ [c]\<rparr>))"

definition is_newline :: "char \<Rightarrow> bool" where
  "is_newline c = (c = LF \<or> c = CR)"

fun end_of_line :: "reader \<Rightarrow> csv_char \<Rightarrow> reader" where
  "end_of_line r EOL = (parse_save_field r)\<lparr>state := START_RECORD\<rparr>"
| "end_of_line r (Chr c) = (parse_save_field r)\<lparr>state := EAT_CRNL\<rparr>"

fun start_field :: "char \<Rightarrow> reader \<Rightarrow> csv_char \<Rightarrow> py_error + reader" where
  "start_field delim r EOL = Inr (end_of_line r EOL)"
| "start_field delim r (Chr c) =
     (if is_newline c then Inr (end_of_line r (Chr c))
      else if c = quotechar then Inr (r\<lparr>state := IN_QUOTED_FIELD\<rparr>)
      else if c = delim then Inr (parse_save_field r)
      else (case parse_add_char r c of
              Inl e \<Rightarrow> Inl e
            | Inr r1 \<Rightarrow> Inr (r1\<lparr>state := IN_FIELD\<rparr>)))"

fun parse_process_char :: "char \<Rightarrow> reader \<Rightarrow> csv_char \<Rightarrow> py_error + reader" where
  "parse_process_char delim r c =
     (case state r of
        START_RECORD \<Rightarrow>
          (case c of
             EOL \<Rightarrow> Inr r
           | Chr x \<Rightarrow>
               (if is_newline x then Inr (r\<lparr>state := EAT_CRNL\<rparr>)
                else start_field delim (r\<lparr>state := START_FIELD\<rparr>) c))
      | START_FIELD \<Rightarrow> start_field delim r c
      | IN_FIELD \<Rightarrow>
          (case c of
             EOL \<Rightarrow> Inr (end_of_line r c)
           | Chr x \<Rightarrow>
               (if is_newline x then Inr (end_of_line r c)
                else if x = delim then Inr ((parse_save_field r)\<lparr>state := START_FIELD\<rparr>)
                else parse_add_char r x))
      | IN_QUOTED_FIELD \<Rightarrow>
          (case c of
             EOL \<Rightarrow> Inr r
           | Chr x \<Rightarrow>
               (if x = quotechar then Inr (r\<lparr>state := QUOTE_IN_QUOTED_FIELD\<rparr>)
                else parse_add_char r x))
      | QUOTE_IN_QUOTED_FIELD \<Rightarrow>
          (case c of
             EOL \<Rightarrow> Inr (end_of_line r c)
           | Chr x \<Rightarrow>
               (if x = quotechar then
                  (case parse_add_char r x of
                     Inl e \<Rightarrow> Inl e
                   | Inr r1 \<Rightarrow> Inr (r1\<lparr>state := IN_QUOTED_FIELD\<rparr>))
                else if x = delim then Inr ((parse_save_field r)\<lparr>state := START_FIELD\<rparr>)
                else if is_newline x then Inr (end_of_line r c)
                else
                  (case parse_add_char r x of
                     Inl e \<Rightarrow> Inl e
                   | Inr r1 \<Rightarrow> Inr (r1\<lparr>state := IN_FIELD\<rparr>))))
      | EAT_CRNL \<Rightarrow>
          (case c of
             EOL \<Rightarrow> Inr (r\<lparr>state := START_RECORD\<rparr>)
           | Chr x \<Rightarrow> (if is_newline x then Inr r else Inl CsvError)))"

fun parse_line :: "char \<Rightarrow> reader \<Rightarrow> string \<Rightarrow> py_error + reader" where
  "parse_line delim r [] = parse_process_char delim r EOL"
| "parse_line delim r (c # cs) =
     (case parse_process_char delim r (Chr c) of
        Inl e \<Rightarrow> Inl e
      | Inr r1 \<Rightarrow> parse_line delim r1 cs)"

text \<open>
  What iterating a reader yields, as the rows produced and the exception that ends the
  iteration, if one does: a generator is read lazily, so the rows before a failure have
  been delivered when it is raised. At the end of the input inside a record (an open
  quoted field), the record read so far is returned.
\<close>

type_synonym 'a gen = "'a list \<times> py_error option"

fun yield :: "'a \<Rightarrow> 'a gen \<Rightarrow> 'a gen" where
  "yield x (xs, err) = (x # xs, err)"

fun reader_rows :: "char \<Rightarrow> reader \<Rightarrow> string list \<Rightarrow> string list gen" where
  "reader_rows delim r [] =
     (if cur_field r \<noteq> [] \<or> state r = IN_QUOTED_FIELD
      then ([rec_fields (parse_save_field r)], None) else ([], None))"
| "reader_rows delim r (l # ls) =
     (case parse_line delim r l of
        Inl e \<Rightarrow> ([], Some e)
      | Inr r1 \<Rightarrow>
          (if state r1 \<noteq> START_RECORD then reader_rows delim r1 ls
           else yield (rec_fields r1) (reader_rows delim parse_reset ls)))"

text \<open>\<^verbatim>\<open>csv.reader(f, delimiter=d)\<close> and \<^verbatim>\<open>csv.writer(f, delimiter=d)\<close> raise
  \<^verbatim>\<open>TypeError\<close> unless \<open>d\<close> is one character.\<close>

definition csv_reader :: "string \<Rightarrow> string \<Rightarrow> string list gen" where
  "csv_reader delimiter content =
     (case delimiter of
        [d] \<Rightarrow> reader_rows d parse_reset (lines_of content)
      | _ \<Rightarrow> ([], Some TypeError))"

definition needs_quotes :: "char \<Rightarrow> string \<Rightarrow> bool" where
  "needs_quotes delim f = list_ex (\<lambda>c. c = delim \<or> c = quotechar \<or> c = CR \<or> c = LF) f"

definition join_append :: "char \<Rightarrow> string \<Rightarrow> string" where
  "join_append delim f =
     (if needs_quotes delim f
      then [quotechar] @ concat (map (\<lambda>c. if c = quotechar then [c, c] else [c]) f) @ [quotechar]
      else f)"

text \<open>One row as \<^verbatim>\<open>writerow\<close> writes it; a row of one empty field is written
  quoted.\<close>

definition writerow :: "char \<Rightarrow> string list \<Rightarrow> string" where
  "writerow delim row =
     (let rec = py_join [delim] (map (join_append delim) row)
      in (if row \<noteq> [] \<and> rec = [] then [quotechar, quotechar] else rec) @ [CR, LF])"

definition csv_writer :: "string \<Rightarrow> py_error + (string list \<Rightarrow> string)" where
  "csv_writer delimiter = (case delimiter of [d] \<Rightarrow> Inr (writerow d) | _ \<Rightarrow> Inl TypeError)"

subsection \<open>The sort key, and list.sort\<close>

text \<open>\<^verbatim>\<open>lambda row: [row[i] for i in sort_keys]\<close>\<close>

fun sort_func :: "int list \<Rightarrow> string list \<Rightarrow> py_error + string list" where
  "sort_func [] row = Inr []"
| "sort_func (i # sort_keys) row =
     (case py_index row i of
        Inl e \<Rightarrow> Inl e
      | Inr x \<Rightarrow>
          (case sort_func sort_keys row of Inl e \<Rightarrow> Inl e | Inr xs \<Rightarrow> Inr (x # xs)))"

text \<open>
  \<^verbatim>\<open>rows.sort(key=f)\<close>: the key of every item is computed first, in order, and an
  exception there ends the call; then the items are sorted by key, stably.
\<close>

fun decorate :: "('a \<Rightarrow> py_error + 'k) \<Rightarrow> 'a list \<Rightarrow> py_error + ('k \<times> 'a) list" where
  "decorate f [] = Inr []"
| "decorate f (x # xs) =
     (case f x of
        Inl e \<Rightarrow> Inl e
      | Inr k \<Rightarrow> (case decorate f xs of Inl e \<Rightarrow> Inl e | Inr kxs \<Rightarrow> Inr ((k, x) # kxs)))"

definition list_sort :: "('a \<Rightarrow> py_error + 'k::linorder) \<Rightarrow> 'a list \<Rightarrow> py_error + 'a list" where
  "list_sort f xs =
     (case decorate f xs of Inl e \<Rightarrow> Inl e | Inr kxs \<Rightarrow> Inr (map snd (sort_key fst kxs)))"

subsection \<open>The chunk sorter: sort\_file\<close>

definition read_rows :: "string \<Rightarrow> string \<Rightarrow> fsys \<Rightarrow> string list gen" where
  "read_rows file_loc delimiter s =
     (case read_file file_loc s of
        Inl e \<Rightarrow> ([], Some e)
      | Inr content \<Rightarrow> csv_reader delimiter (universal_newlines content))"

definition sort_file :: "string \<Rightarrow> int list \<Rightarrow> string \<Rightarrow> fsys \<Rightarrow> (py_error + unit) \<times> fsys" where
  "sort_file file_loc sort_keys delimiter s =
     (case read_rows file_loc delimiter s of
        (rows, Some e) \<Rightarrow> (Inl e, s)
      | (rows, None) \<Rightarrow>
          (case list_sort (sort_func sort_keys) rows of
             Inl e \<Rightarrow> (Inl e, s)
           | Inr sorted_rows \<Rightarrow>
               (case csv_writer delimiter of
                  Inl e \<Rightarrow> (Inl e, s)
                | Inr w \<Rightarrow>
                    (case write_file file_loc (concat (map w sorted_rows)) s of
                       Inl e \<Rightarrow> (Inl e, s)
                     | Inr s1 \<Rightarrow> (Inr (), s1)))))"

subsection \<open>heapq.merge with a key\<close>

text \<open>
  An entry of the heap is the list \<^verbatim>\<open>[key(value), order, value, next]\<close>: the key of the
  head of one input, the position of that input among the arguments, the head, and the
  rest of the input. Entries are compared as Python compares lists, the key first and
  the position (which no two entries share) next, so that the heap's least entry is the
  least for \<open>entry_less\<close>; the heap is kept here as the list of its entries.
\<close>

type_synonym ('k, 'a) entry = "'k \<times> nat \<times> 'a \<times> 'a gen"

definition entry_less :: "('k::linorder, 'a) entry \<Rightarrow> ('k, 'a) entry \<Rightarrow> bool" where
  "entry_less e m = (fst e < fst m \<or> (fst e = fst m \<and> fst (snd e) < fst (snd m)))"

fun least_entry :: "('k::linorder, 'a) entry \<Rightarrow> ('k, 'a) entry list \<Rightarrow> ('k, 'a) entry" where
  "least_entry m [] = m"
| "least_entry m (e # es) = least_entry (if entry_less e m then e else m) es"

text \<open>The first loop of \<^verbatim>\<open>merge\<close>: the head of every input and its key, in the order
  of the arguments; an exhausted input is left out.\<close>

fun merge_init ::
  "('a \<Rightarrow> py_error + 'k) \<Rightarrow> nat \<Rightarrow> 'a gen list \<Rightarrow> py_error + ('k, 'a) entry list" where
  "merge_init key order [] = Inr []"
| "merge_init key order ((xs, err) # its) =
     (case xs of
        [] \<Rightarrow>
          (case err of
             Some e \<Rightarrow> Inl e
           | None \<Rightarrow> merge_init key (order + 1) its)
      | value # rest \<Rightarrow>
          (case key value of
             Inl e \<Rightarrow> Inl e
           | Inr k \<Rightarrow>
               (case merge_init key (order + 1) its of
                  Inl e \<Rightarrow> Inl e
                | Inr h \<Rightarrow> Inr ((k, order, value, rest, err) # h))))"

text \<open>
  The second loop: while more than one input is left, the value of the least entry is
  yielded and the entry takes the next value of its input and that value's key, or
  leaves the heap when the input is exhausted. The last input left is yielded to its
  end, with no key computed.
\<close>

function merge_loop ::
  "('a \<Rightarrow> py_error + 'k::linorder) \<Rightarrow> ('k, 'a) entry list \<Rightarrow> 'a gen" where
  "merge_loop key [] = ([], None)"
| "merge_loop key [(k, order, value, rest, err)] = (value # rest, err)"
| "merge_loop key (e1 # e2 # h) =
     (case least_entry e1 (e2 # h) of
        (k, order, value, rest, err) \<Rightarrow>
          (case rest of
             [] \<Rightarrow>
               (case err of
                  Some e \<Rightarrow> ([value], Some e)
                | None \<Rightarrow>
                    yield value
                      (merge_loop key (remove1 (k, order, value, rest, err) (e1 # e2 # h))))
           | value' # rest' \<Rightarrow>
               (case key value' of
                  Inl e \<Rightarrow> ([value], Some e)
                | Inr k' \<Rightarrow>
                    yield value
                      (merge_loop key
                         ((k', order, value', rest', err) #
                          remove1 (k, order, value, rest, err) (e1 # e2 # h))))))"
  by pat_completeness auto
termination
proof (relation "measure (\<lambda>(key, h). sum_list (map (\<lambda>(k, order, value, rest, err). Suc (length rest)) h))",
    goal_cases)
  have mem: "least_entry m es \<in> set (m # es)" for m :: "('b, 'a) entry" and es
  proof (induction es arbitrary: m)
    case Nil
    show ?case by simp
  next
    case (Cons e es)
    from Cons [of "if entry_less e m then e else m"] show ?case
      by (cases "entry_less e m") auto
  qed
  let ?f = "\<lambda>(k :: 'b, order :: nat, value :: 'a, rest :: 'a list, err :: py_error option).
              Suc (length rest)"
  {
    case 1
    show ?case by simp
  next
    case (2 key e1 e2 h k x order y "value" z rest err)
    have "(k, order, value, rest, err) \<in> set (e1 # e2 # h)"
      using mem [of e1 "e2 # h"] 2 by simp
    from sum_list_map_remove1 [OF this, of ?f] show ?case by simp
  next
    case (3 key e1 e2 h k x order y "value" z rest err value' rest' k')
    have "(k, order, value, rest, err) \<in> set (e1 # e2 # h)"
      using mem [of e1 "e2 # h"] 3 by simp
    from sum_list_map_remove1 [OF this, of ?f] 3 show ?case by simp
  }
qed

definition heapq_merge :: "('a \<Rightarrow> py_error + 'k::linorder) \<Rightarrow> 'a gen list \<Rightarrow> 'a gen" where
  "heapq_merge key iterables =
     (case merge_init key 0 iterables of
        Inl e \<Rightarrow> ([], Some e)
      | Inr h \<Rightarrow> merge_loop key h)"

subsection \<open>The stage merger: merge\_files\<close>

text \<open>
  \<^verbatim>\<open>hashlib.md5\<close> is a parameter of the model: \<open>md5\<close> maps the text hashed (the
  UTF-8 encoding is part of it) to the bytes of the digest, and \<open>hexdigest\<close> writes
  each byte as two hexadecimal digits.
\<close>

definition hex_char :: "nat \<Rightarrow> char" where
  "hex_char d = ''0123456789abcdef'' ! d"

definition hexdigest :: "string \<Rightarrow> string" where
  "hexdigest bytes =
     concat (map (\<lambda>b. [hex_char (of_char b div 16), hex_char (of_char b mod 16)]) bytes)"

definition merge_name :: "(string \<Rightarrow> string) \<Rightarrow> string list \<Rightarrow> string" where
  "merge_name md5 files = ''./.tmp/'' @ hexdigest (md5 (concat files)) @ ''.csv''"

text \<open>\<^verbatim>\<open>_yield_rows\<close> takes the delimiter and reads with \<^verbatim>\<open>csv.reader(f)\<close>, whose
  delimiter is the comma. A file that cannot be opened fails the generator at its first
  \<^verbatim>\<open>next\<close>.\<close>

definition yield_rows :: "string \<Rightarrow> string \<Rightarrow> fsys \<Rightarrow> string list gen" where
  "yield_rows file_loc delimiter s = read_rows file_loc '','' s"

fun remove_files :: "string list \<Rightarrow> fsys \<Rightarrow> (py_error + unit) \<times> fsys" where
  "remove_files [] s = (Inr (), s)"
| "remove_files (f # files) s =
     (case os_remove f s of
        Inl e \<Rightarrow> (Inl e, s)
      | Inr s1 \<Rightarrow> remove_files files s1)"

text \<open>
  \<^verbatim>\<open>if header\<close> holds of a list that is not empty. The output file exists, empty, from
  its \<^verbatim>\<open>open\<close> on, and the inputs are read after that; when the merge fails, the file
  is closed with what had been written, and no input is removed.
\<close>

definition merge_files ::
  "(string \<Rightarrow> string) \<Rightarrow> string list \<Rightarrow> int list \<Rightarrow> string list option \<Rightarrow> string \<Rightarrow>
     fsys \<Rightarrow> (py_error + unit) \<times> fsys" where
  "merge_files md5 files sort_keys header delimiter s =
     (case write_file (merge_name md5 files) [] s of
        Inl e \<Rightarrow> (Inl e, s)
      | Inr s1 \<Rightarrow>
          (case csv_writer delimiter of
             Inl e \<Rightarrow> (Inl e, s1)
           | Inr w \<Rightarrow>
               (let head = (case header of
                              None \<Rightarrow> []
                            | Some h \<Rightarrow> (if h \<noteq> [] then w h else []));
                    gen_files = map (\<lambda>f. yield_rows f delimiter s1) files
                in case heapq_merge (sort_func sort_keys) gen_files of
                     (rows, err) \<Rightarrow>
                       (case write_file (merge_name md5 files) (head @ concat (map w rows)) s1 of
                          Inl e \<Rightarrow> (Inl e, s1)
                        | Inr s2 \<Rightarrow>
                            (case err of
                               Some e \<Rightarrow> (Inl e, s2)
                             | None \<Rightarrow> remove_files files s2)))))"

subsection \<open>The orchestrator: external\_sort\<close>

fun build_loop ::
  "int \<Rightarrow> string list \<Rightarrow> string list \<Rightarrow> string list list \<Rightarrow> string list \<times> string list list" where
  "build_loop n_way [] batch merge_tasks = (batch, merge_tasks)"
| "build_loop n_way (f # files) batch merge_tasks =
     (if int (length (batch @ [f])) = n_way
      then build_loop n_way files [] (merge_tasks @ [batch @ [f]])
      else build_loop n_way files (batch @ [f]) merge_tasks)"

definition build_merge_tasks :: "string list \<Rightarrow> int \<Rightarrow> string list list" where
  "build_merge_tasks files n_way =
     (case build_loop n_way files [] [] of
        (batch, merge_tasks) \<Rightarrow> (if batch \<noteq> [] then merge_tasks @ [batch] else merge_tasks))"

text \<open>
  \<^verbatim>\<open>Pool.apply_async(func, args)\<close> runs \<open>func\<close> in a worker process and returns at
  once; what the call returns or raises is kept in a result object that the source never
  reads, while its effect on the files stays. The tasks of one pool work on files of their
  own, and are run here one after the other, in the order they are submitted. A \<open>func\<close>
  that is not callable (\<open>None\<close> here) fails in the worker and changes nothing.
\<close>

definition apply_async :: "(fsys \<Rightarrow> (py_error + unit) \<times> fsys) option \<Rightarrow> fsys \<Rightarrow> fsys" where
  "apply_async func s = (case func of None \<Rightarrow> s | Some f \<Rightarrow> snd (f s))"

text \<open>
  The sort phase: \<^verbatim>\<open>s_pool.apply_async(args)\<close> submits the tuple
  \<^verbatim>\<open>(file, sort_keys, delimiter)\<close> as the function to run, without \<^verbatim>\<open>sort_file\<close>.
  \<^verbatim>\<open>s_tasks.pop()\<close> takes the tasks from the end of the list.
\<close>

fun sort_phase :: "string list \<Rightarrow> fsys \<Rightarrow> fsys" where
  "sort_phase [] s = s"
| "sort_phase (f # s_tasks) s = sort_phase s_tasks (apply_async None s)"

fun merge_phase ::
  "(string \<Rightarrow> string) \<Rightarrow> string list list \<Rightarrow> int list \<Rightarrow> string list option \<Rightarrow> fsys \<Rightarrow> fsys" where
  "merge_phase md5 [] sort_keys header_arg s = s"
| "merge_phase md5 (task # m_tasks) sort_keys header_arg s =
     merge_phase md5 m_tasks sort_keys header_arg
       (apply_async (Some (merge_files md5 task sort_keys header_arg '','')) s)"

text \<open>
  The loop \<^verbatim>\<open>while len(os.listdir('./.tmp/')) > 1\<close>; it need not end, and a run that
  does not return is \<open>None\<close>. \<^verbatim>\<open>merge_files\<close> is given the files, the keys and the
  header: its delimiter is the default, the comma.
\<close>

partial_function (option) merge_rounds ::
  "(string \<Rightarrow> string) \<Rightarrow> (string list \<Rightarrow> string list) \<Rightarrow> int list \<Rightarrow> int \<Rightarrow> string list \<Rightarrow>
     fsys \<Rightarrow> ((py_error + unit) \<times> fsys) option" where
  "merge_rounds md5 lsord sort_keys n_way header_row s =
     (case os_listdir lsord s of
        Inl e \<Rightarrow> Some (Inl e, s)
      | Inr names \<Rightarrow>
          (if 1 < length names then
             (let m_files = map (\<lambda>f. ''./.tmp/'' @ f) names;
                  m_tasks = build_merge_tasks m_files n_way;
                  header_arg = (if length m_tasks = 1 then Some header_row else None)
              in merge_rounds md5 lsord sort_keys n_way header_row
                   (merge_phase md5 (rev m_tasks) sort_keys header_arg s))
           else Some (Inr (), s)))"

declare merge_rounds.simps [code]

definition sorted_name :: "string \<Rightarrow> string" where
  "sorted_name file_loc =
     (let parts = split_aux ''.'' [] file_loc
      in py_join ''.'' (butlast parts) @ ''_sorted.'' @ last parts)"

definition finalize ::
  "(string list \<Rightarrow> string list) \<Rightarrow> string \<Rightarrow> bool \<Rightarrow> fsys \<Rightarrow> (py_error + unit) \<times> fsys" where
  "finalize lsord file_loc overwrite s =
     (let new_file_loc = (if overwrite then file_loc else sorted_name file_loc)
      in case os_listdir lsord s of
           Inl e \<Rightarrow> (Inl e, s)
         | Inr names \<Rightarrow>
             (case py_index names 0 of
                Inl e \<Rightarrow> (Inl e, s)
              | Inr f \<Rightarrow>
                  (case os_rename (''./.tmp/'' @ f) new_file_loc s of
                     Inl e \<Rightarrow> (Inl e, s)
                   | Inr s1 \<Rightarrow>
                       (case os_rmdir s1 of
                          Inl e \<Rightarrow> (Inl e, s1)
                        | Inr s2 \<Rightarrow> (Inr (), s2)))))"

text \<open>
  \<^verbatim>\<open>header_row.strip()\<close> is an \<^verbatim>\<open>AttributeError\<close> when the partitioner returned
  \<^verbatim>\<open>None\<close> for the header; \<^verbatim>\<open>Pool(processes=n_proc)\<close> is a \<^verbatim>\<open>ValueError\<close> for
  \<open>n_proc < 1\<close>.
\<close>

definition external_sort ::
  "(string \<Rightarrow> string) \<Rightarrow> (string list \<Rightarrow> string list) \<Rightarrow> string \<Rightarrow> int list \<Rightarrow> int \<Rightarrow> int \<Rightarrow>
     rat \<Rightarrow> bool \<Rightarrow> string \<Rightarrow> bool \<Rightarrow> fsys \<Rightarrow> ((py_error + unit) \<times> fsys) option" where
  "external_sort md5 lsord file_loc sort_keys n_proc n_way max_size header delimiter overwrite s =
     (case create_temp_files file_loc max_size header s of
        (Inl e, s1) \<Rightarrow> Some (Inl e, s1)
      | (Inr (chunks, header_line), s1) \<Rightarrow>
          (case header_line of
             None \<Rightarrow> Some (Inl AttributeError, s1)
           | Some h \<Rightarrow>
               (case py_split (py_strip h) delimiter of
                  Inl e \<Rightarrow> Some (Inl e, s1)
                | Inr header_row \<Rightarrow>
                    (if n_proc < 1 then Some (Inl ValueError, s1)
                     else
                       (case merge_rounds md5 lsord sort_keys n_way header_row
                               (sort_phase (rev chunks) s1) of
                          None \<Rightarrow> None
                        | Some (Inl e, s2) \<Rightarrow> Some (Inl e, s2)
                        | Some (Inr u, s2) \<Rightarrow> Some (finalize lsord file_loc overwrite s2))))))"

section \<open>Definitions for the proofs\<close>

subsection \<open>The partitioning loop, on the lines alone\<close>









text \<open>An index \<open>i\<close> is in range for a list of \<open>n\<close> elements when \<open>-n \<le> i < n\<close>.\<close>

definition in_range :: "'a list \<Rightarrow> int \<Rightarrow> bool" where
  "in_range xs i = (- int (length xs) \<le> i \<and> i < int (length xs))"

text \<open>
  The key of a row, as the spec words it: the fields of the row at the listed column
  indices, in the order listed (an index below zero counts from the end of the row).
\<close>

definition key_columns :: "int list \<Rightarrow> string list \<Rightarrow> string list" where
  "key_columns sort_keys row =
     map (\<lambda>i. row ! nat (if i < 0 then i + int (length row) else i)) sort_keys"


definition single_byte :: "string \<Rightarrow> bool" where
  "single_byte s = list_all (\<lambda>c. of_char c < (128::nat)) s"

subsection \<open>Example inputs\<close>

text \<open>A digest function to run examples with: the first sixteen characters of the
  text. No statement below depends on which function it is.\<close>

definition toy_digest :: "string \<Rightarrow> string" where
  "toy_digest s = take 16 s"

text \<open>An input file of a header and three records, and the file system after it has been
  partitioned with a threshold of six characters.\<close>

definition example_input :: string where
  "example_input = ''a,b\<newline>3,x\<newline>1,y\<newline>2,z\<newline>''"

definition example_fs :: fsys where
  "example_fs = \<lparr>outside = [''in.csv'' \<mapsto> example_input], workspace = None\<rparr>"


text \<open>A chunk of three records, two of them with the same first field, before and after
  sorting on the first field.\<close>

definition example_chunk :: fsys where
  "example_chunk =
     \<lparr>outside = Map.empty,
      workspace = Some [(''split0.csv'', ''3,x\<newline>1,y\<newline>1,a\<newline>'')]\<rparr>"

definition example_sorted :: fsys where
  "example_sorted =
     \<lparr>outside = Map.empty,
      workspace = Some [(''split0.csv'',
        ''1,y'' @ [CR, LF] @ ''1,a'' @ [CR, LF] @ ''3,x'' @ [CR, LF])]\<rparr>"

text \<open>Two workspaces with the same file names and other contents; a chunk whose fields
  are separated by semicolons.\<close>

definition merge_fs1 :: fsys where
  "merge_fs1 = \<lparr>outside = Map.empty,
     workspace = Some [(''split0.csv'', ''1,y\<newline>3,x\<newline>''), (''split1.csv'', ''2,z\<newline>'')]\<rparr>"

definition merge_fs2 :: fsys where
  "merge_fs2 = \<lparr>outside = Map.empty,
     workspace = Some [(''split0.csv'', ''k,1\<newline>''), (''split1.csv'', ''j,2\<newline>'')]\<rparr>"

definition merge_inputs :: "string list" where
  "merge_inputs = [''./.tmp/split0.csv'', ''./.tmp/split1.csv'']"

definition semicolon_fs :: fsys where
  "semicolon_fs = \<lparr>outside = Map.empty,
     workspace = Some [(''split0.csv'', ''a;1\<newline>b;2\<newline>'')]\<rparr>"




text \<open>An empty input, an input of a header alone, and an input of a header and one
  record.\<close>

definition empty_fs :: fsys where
  "empty_fs = \<lparr>outside = [''in.csv'' \<mapsto> []], workspace = None\<rparr>"

definition header_only_fs :: fsys where
  "header_only_fs = \<lparr>outside = [''in.csv'' \<mapsto> ''a,b\<newline>''], workspace = None\<rparr>"

definition people_fs :: fsys where
  "people_fs = \<lparr>outside = [''in.csv'' \<mapsto> ''name,age\<newline>bob,30\<newline>''], workspace = None\<rparr>"

text \<open>An input with a quoted field that spans two lines, and what a run makes of it.\<close>

definition quoted_input :: string where
  "quoted_input = ''h\<newline>'' @ [quotechar] @ ''x\<newline>y'' @ [quotechar] @ '',1\<newline>''"

definition quoted_output :: string where
  "quoted_output =
     ''h'' @ [CR, LF] @
     [quotechar] @ ''x\<newline>'' @ [quotechar] @ [CR, LF] @
     [quotechar] @ ''y'' @ [quotechar, quotechar, quotechar] @ '',1'' @ [CR, LF]"

definition quoted_fs :: fsys where
  "quoted_fs = \<lparr>outside = [''in.csv'' \<mapsto> quoted_input], workspace = None\<rparr>"

section \<open>Properties\<close>

subsection \<open>A run without a header\<close>

lemma split_rows_header_False:
  "split_rows T False rows st s = (Inr st', s') \<Longrightarrow> header_cols st' = header_cols st"
proof (induction rows arbitrary: st s)
  case Nil
  then show ?case by simp
next
  case (Cons row rows)
  from Cons.prems show ?case
    by (auto simp: Let_def split: option.splits sum.splits if_splits dest!: Cons.IH)
qed

lemma create_temp_files_header_False:
  "create_temp_files file_loc max_size False s = (Inr (chunks, h), s') \<Longrightarrow> h = None"
  by (auto simp: create_temp_files_def Let_def split: sum.splits prod.splits option.splits
      dest!: split_rows_header_False)

text \<open>
  C10. With \<open>header = False\<close>, \<open>external_sort\<close> fails for every input file and every
  other argument: with the partitioner's own error when the partitioner fails, and
  otherwise with the \<^verbatim>\<open>AttributeError\<close> of \<^verbatim>\<open>header_row.strip()\<close>, the header the
  partitioner returns being \<^verbatim>\<open>None\<close>. The file system it leaves is the one the
  partitioner left: no chunk has been sorted or merged.
\<close>

theorem external_sort_header_False:
  "external_sort md5 lsord file_loc sort_keys n_proc n_way max_size False delimiter overwrite s =
     (case create_temp_files file_loc max_size False s of
        (Inl e, s1) \<Rightarrow> Some (Inl e, s1)
      | (Inr r, s1) \<Rightarrow> Some (Inl AttributeError, s1))"
proof (cases "create_temp_files file_loc max_size False s")
  case (Pair r s1)
  show ?thesis
  proof (cases r)
    case (Inl e)
    with Pair show ?thesis by (simp add: external_sort_def)
  next
    case (Inr x)
    obtain chunks h where x: "x = (chunks, h)" by (cases x)
    with Pair Inr have "h = None" by (auto dest: create_temp_files_header_False)
    with Pair Inr x show ?thesis by (simp add: external_sort_def)
  qed
qed

subsection \<open>The names of the chunk files\<close>











subsection \<open>The partitioning loop\<close>










subsection \<open>The partitioning invariant\<close>








lemma single_byte_append [simp]: "single_byte (xs @ ys) \<longleftrightarrow> single_byte xs \<and> single_byte ys"
  by (simp add: single_byte_def)








subsection \<open>Reading and writing files\<close>

lemma resolve_inj: "resolve p = resolve q \<Longrightarrow> p = q"
proof -
  assume a: "resolve p = resolve q"
  show ?thesis
  proof (cases "resolve p")
    case (Tmp n)
    with a have "take 7 p = take 7 q" "drop 7 p = drop 7 q"
      by (auto simp: resolve_def split: if_splits)
    then show ?thesis by (metis append_take_drop_id)
  next
    case (Out x)
    with a show ?thesis by (auto simp: resolve_def split: if_splits)
  qed
qed

lemma read_write_same: "write_file p c s = Inr s' \<Longrightarrow> read_file p s' = Inr c"
  by (auto simp: write_file_def read_file_def update_conv' split: loc.splits option.splits)

lemma read_write_other:
  assumes "write_file p c s = Inr s'" and "q \<noteq> p"
  shows "read_file q s' = read_file q s"
proof -
  from assms(2) have ne: "resolve q \<noteq> resolve p" by (auto dest: resolve_inj)
  show ?thesis
  proof (cases "resolve p")
    case (Tmp n)
    with assms(1) obtain es where "workspace s = Some es"
      "s' = s\<lparr>workspace := Some (AList.update n c es)\<rparr>"
      by (auto simp: write_file_def split: option.splits)
    with ne Tmp show ?thesis
      by (cases "resolve q") (simp_all add: read_file_def update_conv')
  next
    case (Out x)
    with assms(1) have "s' = s\<lparr>outside := (outside s)(x \<mapsto> c)\<rparr>"
      by (auto simp: write_file_def)
    with ne Out show ?thesis
      by (cases "resolve q") (simp_all add: read_file_def)
  qed
qed

subsection \<open>The chunk sorter\<close>

lemma decorate_Inr:
  "decorate f xs = Inr kxs \<Longrightarrow> map snd kxs = xs \<and> map f xs = map (\<lambda>p. Inr (fst p)) kxs"
  by (induction xs arbitrary: kxs) (auto split: sum.splits)

lemma list_sort_Inr:
  assumes "list_sort f xs = Inr ys"
  shows "mset ys = mset xs"
    and "\<exists>ks. map f ys = map Inr ks \<and> sorted ks"
    and "filter (\<lambda>x. f x = Inr k) ys = filter (\<lambda>x. f x = Inr k) xs"
proof -
  from assms obtain kxs where d: "decorate f xs = Inr kxs" and ys: "ys = map snd (sort_key fst kxs)"
    by (auto simp: list_sort_def split: sum.splits)
  from decorate_Inr [OF d] have xs: "map snd kxs = xs" and fx: "map f xs = map (\<lambda>p. Inr (fst p)) kxs"
    by simp_all
  have pair: "f (snd p) = Inr (fst p)" if "p \<in> set kxs" for p
  proof -
    from that obtain i where i: "i < length kxs" "kxs ! i = p" by (auto simp: in_set_conv_nth)
    with xs have "xs ! i = snd p" by (metis length_map nth_map)
    moreover from fx i xs have "f (xs ! i) = Inr (fst p)"
      by (metis length_map nth_map)
    ultimately show ?thesis by simp
  qed
  have "mset ys = image_mset snd (mset (sort_key fst kxs))" by (simp add: ys)
  also have "\<dots> = mset (map snd kxs)" by simp
  finally show "mset ys = mset xs" by (simp add: xs)
  have "map f ys = map Inr (map fst (sort_key fst kxs))"
    using pair by (simp add: ys)
  moreover have "sorted (map fst (sort_key fst kxs))" by simp
  ultimately show "\<exists>ks. map f ys = map Inr ks \<and> sorted ks" by blast
  have "filter (\<lambda>x. f x = Inr k) ys = map snd (filter (\<lambda>p. f (snd p) = Inr k) (sort_key fst kxs))"
    by (simp add: ys filter_map comp_def)
  also have "filter (\<lambda>p. f (snd p) = Inr k) (sort_key fst kxs) = filter (\<lambda>p. fst p = k) (sort_key fst kxs)"
    using pair by (intro filter_cong) auto
  also have "\<dots> = filter (\<lambda>p. fst p = k) kxs" by (rule sort_key_stable)
  also have "\<dots> = filter (\<lambda>p. f (snd p) = Inr k) kxs"
    using pair by (intro filter_cong) auto
  also have "map snd \<dots> = filter (\<lambda>x. f x = Inr k) (map snd kxs)"
    by (simp add: filter_map comp_def)
  finally show "filter (\<lambda>x. f x = Inr k) ys = filter (\<lambda>x. f x = Inr k) xs" by (simp add: xs)
qed

lemma sort_file_returns:
  assumes "sort_file file_loc sort_keys delimiter s = (Inr (), s')"
  shows "\<exists>d rows sorted_rows keys.
      delimiter = [d] \<and>
      read_rows file_loc delimiter s = (rows, None) \<and>
      mset sorted_rows = mset rows \<and>
      map (sort_func sort_keys) sorted_rows = map Inr keys \<and> sorted keys \<and>
      (\<forall>k. filter (\<lambda>row. sort_func sort_keys row = Inr k) sorted_rows =
            filter (\<lambda>row. sort_func sort_keys row = Inr k) rows) \<and>
      read_file file_loc s' = Inr (concat (map (writerow d) sorted_rows)) \<and>
      (\<forall>p. p \<noteq> file_loc \<longrightarrow> read_file p s' = read_file p s)"
proof -
  from assms obtain rows where rr: "read_rows file_loc delimiter s = (rows, None)"
    by (auto simp: sort_file_def split: prod.splits option.splits)
  with assms obtain sorted_rows where ls: "list_sort (sort_func sort_keys) rows = Inr sorted_rows"
    by (auto simp: sort_file_def split: sum.splits)
  with assms rr obtain w where w: "csv_writer delimiter = Inr w"
    by (auto simp: sort_file_def split: sum.splits)
  then obtain d where d: "delimiter = [d]" "w = writerow d"
    by (auto simp: csv_writer_def split: list.splits)
  from assms rr ls w d have wf: "write_file file_loc (concat (map (writerow d) sorted_rows)) s = Inr s'"
    by (auto simp: sort_file_def split: sum.splits)
  from list_sort_Inr(2) [OF ls] obtain keys where
    k: "map (sort_func sort_keys) sorted_rows = map Inr keys" "sorted keys" by blast
  from d rr list_sort_Inr(1) [OF ls] k list_sort_Inr(3) [OF ls]
    read_write_same [OF wf] read_write_other [OF wf]
  show ?thesis by blast
qed

lemma py_index_range:
  "py_index xs i = (if in_range xs i then Inr (xs ! nat (if i < 0 then i + int (length xs) else i)) else Inl IndexError)"
  by (auto simp: py_index_def in_range_def)

lemma sort_func_error:
  "list_ex (\<lambda>i. \<not> in_range row i) sort_keys \<Longrightarrow> sort_func sort_keys row = Inl IndexError"
  by (induction sort_keys) (auto simp: py_index_range split: sum.splits)

lemma sort_func_ok:
  "\<not> list_ex (\<lambda>i. \<not> in_range row i) sort_keys \<Longrightarrow> \<exists>k. sort_func sort_keys row = Inr k"
  by (induction sort_keys) (auto simp: py_index_range split: sum.splits)

lemma decorate_error:
  "list_ex (\<lambda>row. list_ex (\<lambda>i. \<not> in_range row i) sort_keys) rows \<Longrightarrow>
     decorate (sort_func sort_keys) rows = Inl IndexError"
proof (induction rows)
  case Nil
  then show ?case by simp
next
  case (Cons row rows)
  show ?case
  proof (cases "list_ex (\<lambda>i. \<not> in_range row i) sort_keys")
    case True
    then show ?thesis by (simp add: sort_func_error)
  next
    case False
    with sort_func_ok [of row sort_keys] obtain k where "sort_func sort_keys row = Inr k" by blast
    moreover from False Cons have "decorate (sort_func sort_keys) rows = Inl IndexError" by simp
    ultimately show ?thesis by simp
  qed
qed

lemma decorate_ok:
  "\<not> list_ex (\<lambda>row. list_ex (\<lambda>i. \<not> in_range row i) sort_keys) rows \<Longrightarrow>
     \<exists>kxs. decorate (sort_func sort_keys) rows = Inr kxs"
proof (induction rows)
  case Nil
  then show ?case by simp
next
  case (Cons row rows)
  then obtain kxs where "decorate (sort_func sort_keys) rows = Inr kxs" by auto
  moreover from Cons.prems sort_func_ok [of row sort_keys] obtain k where
    "sort_func sort_keys row = Inr k" by auto
  ultimately show ?case by simp
qed

lemma write_after_read: "read_file p s = Inr c \<Longrightarrow> \<exists>s'. write_file p c' s = Inr s'"
  by (auto simp: read_file_def write_file_def split: loc.splits option.splits)

lemma sort_func_columns:
  "\<not> list_ex (\<lambda>i. \<not> in_range row i) sort_keys \<Longrightarrow>
     sort_func sort_keys row = Inr (key_columns sort_keys row)"
  by (induction sort_keys) (auto simp: py_index_range key_columns_def)

text \<open>
  C8. For a file whose rows can be read with the delimiter, and sort keys in range for
  every row, \<open>sort_file\<close> returns, and the file it was given then holds the rows it read
  from that file, written row by row by the writer of the same delimiter: the same rows
  (as a multiset), in ascending order of their keys, the rows of one key in the order
  they had in the input. The key of a row is the list of its fields at the sort-key
  columns. No other file has changed.
\<close>

theorem sort_file_stable:
  assumes "read_rows file_loc delimiter s = (rows, None)"
    and "\<not> list_ex (\<lambda>row. list_ex (\<lambda>i. \<not> in_range row i) sort_keys) rows"
  shows "\<exists>d sorted_rows s'.
      sort_file file_loc sort_keys delimiter s = (Inr (), s') \<and>
      delimiter = [d] \<and>
      mset sorted_rows = mset rows \<and>
      sorted (map (key_columns sort_keys) sorted_rows) \<and>
      (\<forall>k. filter (\<lambda>row. key_columns sort_keys row = k) sorted_rows =
            filter (\<lambda>row. key_columns sort_keys row = k) rows) \<and>
      read_file file_loc s' = Inr (concat (map (writerow d) sorted_rows)) \<and>
      (\<forall>p. p \<noteq> file_loc \<longrightarrow> read_file p s' = read_file p s)"
proof -
  from assms(1) obtain c d where rf: "read_file file_loc s = Inr c" and d: "delimiter = [d]"
    by (auto simp: read_rows_def csv_reader_def split: sum.splits list.splits)
  from decorate_ok [OF assms(2)] obtain sorted_rows where
    ls: "list_sort (sort_func sort_keys) rows = Inr sorted_rows"
    by (auto simp: list_sort_def)
  from write_after_read [OF rf] obtain s' where
    wf: "write_file file_loc (concat (map (writerow d) sorted_rows)) s = Inr s'"
    by blast
  have run: "sort_file file_loc sort_keys delimiter s = (Inr (), s')"
    using assms(1) ls wf by (simp add: sort_file_def d csv_writer_def)
  have ms: "mset sorted_rows = mset rows" by (rule list_sort_Inr(1) [OF ls])
  have key: "sort_func sort_keys row = Inr (key_columns sort_keys row)" if "row \<in> set rows" for row
    using that assms(2) by (intro sort_func_columns) (auto simp: list_ex_iff)
  have key': "sort_func sort_keys row = Inr (key_columns sort_keys row)"
    if "row \<in> set sorted_rows" for row
    using that key mset_eq_setD [OF ms] by simp
  from list_sort_Inr(2) [OF ls] obtain keys where
    k: "map (sort_func sort_keys) sorted_rows = map Inr keys" "sorted keys" by blast
  have "map (sort_func sort_keys) sorted_rows = map Inr (map (key_columns sort_keys) sorted_rows)"
    using key' by simp
  with k(1) have "keys = map (key_columns sort_keys) sorted_rows"
    by (simp add: inj_map_eq_map [OF inj_Inr, symmetric] del: map_map)
  with k(2) have so: "sorted (map (key_columns sort_keys) sorted_rows)" by simp
  have st: "filter (\<lambda>row. key_columns sort_keys row = k) sorted_rows =
            filter (\<lambda>row. key_columns sort_keys row = k) rows" for k
  proof -
    have "filter (\<lambda>row. key_columns sort_keys row = k) sorted_rows =
          filter (\<lambda>row. sort_func sort_keys row = Inr k) sorted_rows"
      using key' by (intro filter_cong) auto
    also have "\<dots> = filter (\<lambda>row. sort_func sort_keys row = Inr k) rows"
      by (rule list_sort_Inr(3) [OF ls])
    also have "\<dots> = filter (\<lambda>row. key_columns sort_keys row = k) rows"
      using key by (intro filter_cong) auto
    finally show ?thesis .
  qed
  from run d ms so st read_write_same [OF wf] read_write_other [OF wf] show ?thesis by blast
qed

text \<open>
  C6, as amended. When the rows of the file have been read and a sort-key index is out
  of range for one of them (an index \<open>i\<close> is in range for a row of \<open>n\<close> fields when
  \<open>-n \<le> i < n\<close>), \<open>sort_file\<close> fails with \<^verbatim>\<open>IndexError\<close>, the exception of a list
  index, and leaves the file system as it was: no row is skipped and nothing is written.
\<close>

theorem sort_file_IndexError:
  assumes "read_rows file_loc delimiter s = (rows, None)"
    and "list_ex (\<lambda>row. list_ex (\<lambda>i. \<not> in_range row i) sort_keys) rows"
  shows "sort_file file_loc sort_keys delimiter s = (Inl IndexError, s)"
  using assms by (simp add: sort_file_def list_sort_def decorate_error)

lemma example_chunk_rows:
  "read_rows ''./.tmp/split0.csv'' '','' example_chunk =
     ([[''3'', ''x''], [''1'', ''y''], [''1'', ''a'']], None)"
  by (simp add: read_rows_def read_file_def resolve_def example_chunk_def csv_reader_def
      parse_reset_def parse_save_field_def parse_add_char_def is_newline_def LF_def CR_def
      quotechar_def field_limit_def)

theorem sort_file_IndexError_witness:
  "read_rows ''./.tmp/split0.csv'' '','' example_chunk =
     ([[''3'', ''x''], [''1'', ''y''], [''1'', ''a'']], None) \<and>
   list_ex (\<lambda>row. list_ex (\<lambda>i. \<not> in_range row i) [0, 2])
     [[''3'', ''x''], [''1'', ''y''], [''1'', ''a'']] \<and>
   sort_file ''./.tmp/split0.csv'' [0, 2] '','' example_chunk = (Inl IndexError, example_chunk)"
proof -
  have b: "list_ex (\<lambda>row. list_ex (\<lambda>i. \<not> in_range row i) [0, 2])
     [[''3'', ''x''], [''1'', ''y''], [''1'', ''a'']]"
    by (simp add: in_range_def)
  from sort_file_IndexError [OF example_chunk_rows b] example_chunk_rows b show ?thesis by simp
qed

text \<open>
  C6, as stated, fails: with the keys \<open>[0, 2]\<close> and rows of two fields, the exception
  is \<^verbatim>\<open>IndexError\<close>, not \<^verbatim>\<open>KeyError\<close>.
\<close>

theorem sort_file_KeyError_counterexample:
  "fst (sort_file ''./.tmp/split0.csv'' [0, 2] '','' example_chunk) = Inl IndexError \<and>
   fst (sort_file ''./.tmp/split0.csv'' [0, 2] '','' example_chunk) \<noteq> Inl KeyError"
  by (simp add: sort_file_def example_chunk_rows list_sort_def py_index_def)

lemma example_sort:
  "sort_file ''./.tmp/split0.csv'' [0] '','' example_chunk = (Inr (), example_sorted)"
proof -
  have l: "list_sort (sort_func [0]) [[''3'', ''x''], [''1'', ''y''], [''1'', ''a'']] =
      Inr [[''1'', ''y''], [''1'', ''a''], [''3'', ''x'']]"
    by (simp add: list_sort_def py_index_def)
  show ?thesis
    apply (simp add: sort_file_def example_chunk_rows l csv_writer_def)
    apply (simp add: writerow_def join_append_def needs_quotes_def quotechar_def CR_def LF_def
        write_file_def resolve_def example_chunk_def example_sorted_def)
    done
qed

theorem sort_file_stable_witness:
  "read_rows ''./.tmp/split0.csv'' '','' example_chunk =
     ([[''3'', ''x''], [''1'', ''y''], [''1'', ''a'']], None) \<and>
   \<not> list_ex (\<lambda>row. list_ex (\<lambda>i. \<not> in_range row i) [0])
     [[''3'', ''x''], [''1'', ''y''], [''1'', ''a'']] \<and>
   (\<exists>d sorted_rows s'.
      sort_file ''./.tmp/split0.csv'' [0] '','' example_chunk = (Inr (), s') \<and>
      '','' = [d] \<and>
      mset sorted_rows = mset [[''3'', ''x''], [''1'', ''y''], [''1'', ''a'']] \<and>
      sorted (map (key_columns [0]) sorted_rows) \<and>
      (\<forall>k. filter (\<lambda>row. key_columns [0] row = k) sorted_rows =
            filter (\<lambda>row. key_columns [0] row = k) [[''3'', ''x''], [''1'', ''y''], [''1'', ''a'']]) \<and>
      read_file ''./.tmp/split0.csv'' s' = Inr (concat (map (writerow d) sorted_rows)) \<and>
      (\<forall>p. p \<noteq> ''./.tmp/split0.csv'' \<longrightarrow> read_file p s' = read_file p example_chunk)) \<and>
   sort_file ''./.tmp/split0.csv'' [0] '','' example_chunk = (Inr (), example_sorted) \<and>
   read_rows ''./.tmp/split0.csv'' '','' example_sorted =
     ([[''1'', ''y''], [''1'', ''a''], [''3'', ''x'']], None) \<and>
   map (key_columns [0]) [[''1'', ''y''], [''1'', ''a''], [''3'', ''x'']] = [[''1''], [''1''], [''3'']]"
proof -
  have b: "\<not> list_ex (\<lambda>row. list_ex (\<lambda>i. \<not> in_range row i) [0])
     [[''3'', ''x''], [''1'', ''y''], [''1'', ''a'']]"
    by (simp add: in_range_def)
  have c: "read_rows ''./.tmp/split0.csv'' '','' example_sorted =
     ([[''1'', ''y''], [''1'', ''a''], [''3'', ''x'']], None)"
    by (simp add: read_rows_def read_file_def resolve_def example_sorted_def csv_reader_def
        parse_reset_def parse_save_field_def parse_add_char_def is_newline_def LF_def CR_def
        quotechar_def field_limit_def)
  have d: "map (key_columns [0]) [[''1'', ''y''], [''1'', ''a''], [''3'', ''x'']] = [[''1''], [''1''], [''3'']]"
    by (simp add: key_columns_def)
  show ?thesis
    by (rule conjI [OF example_chunk_rows conjI [OF b conjI [OF
          sort_file_stable [OF example_chunk_rows b] conjI [OF example_sort conjI [OF c d]]]]])
qed

subsection \<open>The stage merger\<close>

lemma read_remove_other:
  assumes "os_remove p s = Inr s'" and "q \<noteq> p"
  shows "read_file q s' = read_file q s"
proof -
  from assms(2) have ne: "resolve q \<noteq> resolve p" by (auto dest: resolve_inj)
  show ?thesis
  proof (cases "resolve p")
    case (Tmp n)
    with assms(1) obtain es where "workspace s = Some es"
      "s' = s\<lparr>workspace := Some (AList.delete n es)\<rparr>"
      by (auto simp: os_remove_def split: option.splits)
    with ne Tmp show ?thesis
      by (cases "resolve q") (simp_all add: read_file_def delete_conv')
  next
    case (Out x)
    with assms(1) have "s' = s\<lparr>outside := (outside s)(x := None)\<rparr>"
      by (auto simp: os_remove_def split: option.splits)
    with ne Out show ?thesis
      by (cases "resolve q") (simp_all add: read_file_def)
  qed
qed

lemma read_remove_files:
  "remove_files files s = (Inr (), s') \<Longrightarrow> q \<notin> set files \<Longrightarrow> read_file q s' = read_file q s"
proof (induction files arbitrary: s)
  case Nil
  then show ?case by simp
next
  case (Cons f files)
  from Cons.prems obtain s1 where r: "os_remove f s = Inr s1" and rest: "remove_files files s1 = (Inr (), s')"
    by (auto split: sum.splits)
  from Cons.prems(2) have "q \<noteq> f" "q \<notin> set files" by auto
  with Cons.IH [OF rest] read_remove_other [OF r] show ?case by simp
qed

lemma merge_files_effect:
  assumes "merge_files md5 files sort_keys header delimiter s = (Inr (), s')"
    and "merge_name md5 files \<notin> set files"
  shows "(\<exists>c. read_file (merge_name md5 files) s' = Inr c) \<and>
         (\<forall>p. p \<noteq> merge_name md5 files \<and> p \<notin> set files \<longrightarrow> read_file p s' = read_file p s)"
proof -
  let ?out = "merge_name md5 files"
  from assms(1) obtain s1 where w1: "write_file ?out [] s = Inr s1"
    by (auto simp: merge_files_def split: sum.splits)
  with assms(1) obtain w where w: "csv_writer delimiter = Inr w"
    by (auto simp: merge_files_def split: sum.splits)
  from assms(1) w1 w obtain body s2 where w2: "write_file ?out body s1 = Inr s2"
    and rm: "remove_files files s2 = (Inr (), s')"
    by (auto simp: merge_files_def Let_def split: sum.splits prod.splits option.splits)
  have "read_file ?out s' = Inr body"
    using read_remove_files [OF rm assms(2)] read_write_same [OF w2] by simp
  moreover have "read_file p s' = read_file p s" if "p \<noteq> ?out" "p \<notin> set files" for p
    using that read_remove_files [OF rm, of p] read_write_other [OF w2, of p]
      read_write_other [OF w1, of p] by simp
  ultimately show ?thesis by blast
qed

text \<open>
  C9. The file \<open>merge_files\<close> writes is named by \<open>merge_name\<close>, a function of the
  digest function and of the list of input path names alone: two runs over the same
  path names, whatever the file systems they run in (so whatever the files hold), the
  keys, the header and the delimiter, both leave their output under that one name, and
  change no file other than it and the inputs.
\<close>

theorem merge_files_output_name:
  assumes "merge_files md5 files sort_keys header delimiter s = (Inr (), s')"
    and "merge_files md5 files sort_keys' header' delimiter' t = (Inr (), t')"
    and "merge_name md5 files \<notin> set files"
  shows "(\<exists>c. read_file (merge_name md5 files) s' = Inr c) \<and>
         (\<exists>c. read_file (merge_name md5 files) t' = Inr c) \<and>
         (\<forall>p. p \<noteq> merge_name md5 files \<and> p \<notin> set files \<longrightarrow>
               read_file p s' = read_file p s \<and> read_file p t' = read_file p t)"
  using merge_files_effect [OF assms(1,3)] merge_files_effect [OF assms(2,3)] by blast

lemmas fs_eval = read_file_def write_file_def os_remove_def resolve_def
lemmas csv_eval = read_rows_def csv_reader_def parse_reset_def parse_save_field_def
  parse_add_char_def is_newline_def LF_def CR_def quotechar_def field_limit_def
  csv_writer_def writerow_def join_append_def needs_quotes_def
lemmas merge_eval = merge_files_def merge_name_def hexdigest_def hex_char_def yield_rows_def
  heapq_merge_def py_index_def entry_less_def Let_def

lemma merge_fs1_runs: "fst (merge_files toy_digest merge_inputs [0] None '','' merge_fs1) = Inr ()"
  by (simp add: merge_eval csv_eval fs_eval toy_digest_def merge_inputs_def merge_fs1_def)

lemma merge_fs2_runs:
  "fst (merge_files toy_digest merge_inputs [1] (Some [''h'', ''g'']) '','' merge_fs2) = Inr ()"
  by (simp add: merge_eval csv_eval fs_eval toy_digest_def merge_inputs_def merge_fs2_def)

lemma merge_inputs_fresh: "merge_name toy_digest merge_inputs \<notin> set merge_inputs"
  by (simp add: merge_eval toy_digest_def merge_inputs_def)

theorem merge_files_output_name_witness:
  "merge_files toy_digest merge_inputs [0] None '','' merge_fs1 =
     (Inr (), snd (merge_files toy_digest merge_inputs [0] None '','' merge_fs1)) \<and>
   merge_files toy_digest merge_inputs [1] (Some [''h'', ''g'']) '','' merge_fs2 =
     (Inr (), snd (merge_files toy_digest merge_inputs [1] (Some [''h'', ''g'']) '','' merge_fs2)) \<and>
   merge_name toy_digest merge_inputs \<notin> set merge_inputs \<and>
   (\<exists>c. read_file (merge_name toy_digest merge_inputs)
          (snd (merge_files toy_digest merge_inputs [0] None '','' merge_fs1)) = Inr c) \<and>
   (\<exists>c. read_file (merge_name toy_digest merge_inputs)
          (snd (merge_files toy_digest merge_inputs [1] (Some [''h'', ''g'']) '','' merge_fs2)) = Inr c)"
proof -
  have a: "merge_files toy_digest merge_inputs [0] None '','' merge_fs1 =
     (Inr (), snd (merge_files toy_digest merge_inputs [0] None '','' merge_fs1))"
    using merge_fs1_runs by (simp add: prod_eq_iff)
  have b: "merge_files toy_digest merge_inputs [1] (Some [''h'', ''g'']) '','' merge_fs2 =
     (Inr (), snd (merge_files toy_digest merge_inputs [1] (Some [''h'', ''g'']) '','' merge_fs2))"
    using merge_fs2_runs by (simp add: prod_eq_iff)
  from merge_files_output_name [OF a b merge_inputs_fresh] have
    c: "\<exists>c. read_file (merge_name toy_digest merge_inputs)
          (snd (merge_files toy_digest merge_inputs [0] None '','' merge_fs1)) = Inr c"
    and d: "\<exists>c. read_file (merge_name toy_digest merge_inputs)
          (snd (merge_files toy_digest merge_inputs [1] (Some [''h'', ''g'']) '','' merge_fs2)) = Inr c"
    by simp_all
  show ?thesis
    by (rule conjI [OF a conjI [OF b conjI [OF merge_inputs_fresh conjI [OF c d]]]])
qed

subsection \<open>The names of the merged files\<close>

lemma hex_char_no_slash: "d < 16 \<Longrightarrow> hex_char d \<noteq> CHR ''/'' \<and> hex_char d \<noteq> CHR ''s''"
proof -
  assume "d < 16"
  then have "hex_char d \<in> set ''0123456789abcdef''"
    unfolding hex_char_def by (intro nth_mem) simp
  then show ?thesis by auto
qed

lemma of_char_bound: "of_char b < (256::nat)"
proof -
  have "(of_char b :: nat) = of_char (char_of (of_char b :: nat))" by simp
  also have "\<dots> = of_char b mod 256" by (rule of_char_of)
  finally have "(of_char b :: nat) = of_char b mod 256" .
  moreover have "of_char b mod 256 < (256::nat)" by simp
  ultimately show ?thesis by simp
qed

lemma hexdigest_chars: "CHR ''/'' \<notin> set (hexdigest bs) \<and> CHR ''s'' \<notin> set (hexdigest bs)"
proof -
  have "c \<noteq> CHR ''/'' \<and> c \<noteq> CHR ''s''" if "c \<in> set (hexdigest bs)" for c
  proof -
    from that obtain b where "c = hex_char (of_char b div 16) \<or> c = hex_char (of_char b mod 16)"
      by (auto simp: hexdigest_def)
    moreover have "of_char b div 16 < (16::nat)"
      using of_char_bound [of b] by (simp add: div_less_iff_less_mult)
    moreover have "of_char b mod 16 < (16::nat)" by simp
    ultimately show ?thesis
      using hex_char_no_slash [of "of_char b div 16"] hex_char_no_slash [of "of_char b mod 16"]
      by auto
  qed
  then show ?thesis by blast
qed

lemma resolve_merge_name:
  "resolve (merge_name md5 files) = Tmp (hexdigest (md5 (concat files)) @ ''.csv'')"
  using hexdigest_chars [of "md5 (concat files)"] by (simp add: resolve_def merge_name_def)

lemma digest_name_not_split [simp]:
  "hexdigest bs @ ''.csv'' \<noteq> CHR ''s'' # cs" "CHR ''s'' # cs \<noteq> hexdigest bs @ ''.csv''"
  using hexdigest_chars [of bs] by (cases "hexdigest bs"; auto)+

lemma resolve_split0: "resolve ''./.tmp/split0.csv'' = Tmp ''split0.csv''"
  by (simp add: resolve_def)

lemma resolve_split1: "resolve ''./.tmp/split1.csv'' = Tmp ''split1.csv''"
  by (simp add: resolve_def)

text \<open>
  C5 does not hold of the code: \<^verbatim>\<open>_yield_rows\<close> reads with the comma whatever the
  delimiter. With the delimiter \<^verbatim>\<open>;\<close>, one input file of the records \<open>(a, 1)\<close> and
  \<open>(b, 2)\<close>, sorted on either column: merged on column 0, the output holds the two
  records of one field \<open>a;1\<close> and \<open>b;2\<close> (each line read as one field, then quoted
  by the writer); merged on column 1, the merge fails with \<^verbatim>\<open>IndexError\<close>, leaves an
  empty output file and removes no input.
\<close>

theorem merge_files_ignores_delimiter:
  "read_rows ''./.tmp/split0.csv'' '';'' semicolon_fs = ([[''a'', ''1''], [''b'', ''2'']], None) \<and>
   merge_files md5 [''./.tmp/split0.csv''] [0] None '';'' semicolon_fs =
     (Inr (), \<lparr>outside = Map.empty,
        workspace = Some [(hexdigest (md5 ''./.tmp/split0.csv'') @ ''.csv'',
          [quotechar] @ ''a;1'' @ [quotechar, CR, LF] @ [quotechar] @ ''b;2'' @ [quotechar, CR, LF])]\<rparr>) \<and>
   read_rows (merge_name md5 [''./.tmp/split0.csv'']) '';''
     (snd (merge_files md5 [''./.tmp/split0.csv''] [0] None '';'' semicolon_fs)) =
     ([[''a;1''], [''b;2'']], None) \<and>
   merge_files md5 [''./.tmp/split0.csv''] [1] None '';'' semicolon_fs =
     (Inl IndexError, \<lparr>outside = Map.empty,
        workspace = Some [(''split0.csv'', ''a;1\<newline>b;2\<newline>''),
                          (hexdigest (md5 ''./.tmp/split0.csv'') @ ''.csv'', [])]\<rparr>)"
proof -
  have a: "read_rows ''./.tmp/split0.csv'' '';'' semicolon_fs = ([[''a'', ''1''], [''b'', ''2'']], None)"
    by (simp add: csv_eval read_file_def resolve_split0 semicolon_fs_def)
  have r: "read_rows ''./.tmp/split0.csv'' '',''
      \<lparr>outside = out, workspace = Some [(''split0.csv'', ''a;1\<newline>b;2\<newline>''), (n, [])]\<rparr> =
      ([[''a;1''], [''b;2'']], None)" for out n
    by (simp add: csv_eval read_file_def resolve_split0)
  have w: "csv_writer '';'' = Inr (writerow (CHR '';''))" by (simp add: csv_writer_def)
  have ws: "writerow (CHR '';'') [''a;1''] = [quotechar] @ ''a;1'' @ [quotechar, CR, LF]"
    "writerow (CHR '';'') [''b;2''] = [quotechar] @ ''b;2'' @ [quotechar, CR, LF]"
    by (simp_all add: writerow_def join_append_def needs_quotes_def quotechar_def CR_def LF_def)
  have h0: "heapq_merge (sort_func [0]) [([[''a;1''], [''b;2'']], None)] =
      ([[''a;1''], [''b;2'']], None)"
    by (simp add: heapq_merge_def py_index_def)
  have h1: "heapq_merge (sort_func [1]) [([[''a;1''], [''b;2'']], None)] = ([], Some IndexError)"
    by (simp add: heapq_merge_def py_index_def)
  have b: "merge_files md5 [''./.tmp/split0.csv''] [0] None '';'' semicolon_fs =
     (Inr (), \<lparr>outside = Map.empty,
        workspace = Some [(hexdigest (md5 ''./.tmp/split0.csv'') @ ''.csv'',
          [quotechar] @ ''a;1'' @ [quotechar, CR, LF] @ [quotechar] @ ''b;2'' @ [quotechar, CR, LF])]\<rparr>)"
    by (simp add: merge_files_def yield_rows_def Let_def write_file_def resolve_merge_name
        semicolon_fs_def r w ws h0 os_remove_def resolve_split0)
  have c: "read_rows (merge_name md5 [''./.tmp/split0.csv'']) '';''
     (snd (merge_files md5 [''./.tmp/split0.csv''] [0] None '';'' semicolon_fs)) =
     ([[''a;1''], [''b;2'']], None)"
    unfolding b by (simp add: csv_eval read_file_def resolve_merge_name)
  have d: "merge_files md5 [''./.tmp/split0.csv''] [1] None '';'' semicolon_fs =
     (Inl IndexError, \<lparr>outside = Map.empty,
        workspace = Some [(''split0.csv'', ''a;1\<newline>b;2\<newline>''),
                          (hexdigest (md5 ''./.tmp/split0.csv'') @ ''.csv'', [])]\<rparr>)"
    by (simp add: merge_files_def yield_rows_def Let_def write_file_def resolve_merge_name
        semicolon_fs_def r w h1)
  from a b c d show ?thesis by (intro conjI)
qed

subsection \<open>Runs of the orchestrator\<close>

lemma length_arrange: "length (arrange lsord names) = length names"
  by (auto simp: arrange_def dest: mset_eq_length)

lemma arrange_Nil: "arrange lsord [] = []"
  using length_arrange [of lsord "[]"] by simp

lemma arrange_single: "arrange lsord [n] = [n]"
proof (cases "mset (lsord [n]) = mset [n]")
  case True
  then have "lsord [n] = [n]" by (metis mset_single_iff_right mset.simps(1) mset.simps(2))
  with True show ?thesis by (simp add: arrange_def)
next
  case False
  then show ?thesis by (simp add: arrange_def)
qed

lemma sort_phase_noop: "sort_phase s_tasks s = s"
  by (induction s_tasks arbitrary: s) (simp_all add: apply_async_def)

lemma merge_rounds_done:
  "workspace s = Some es \<Longrightarrow> length es \<le> 1 \<Longrightarrow>
     merge_rounds md5 lsord sort_keys n_way header_row s = Some (Inr (), s)"
  by (subst merge_rounds.simps) (simp add: os_listdir_def length_arrange)

lemma resolve_in_csv: "resolve ''in.csv'' = Out ''in.csv''"
  by (simp add: resolve_def)

text \<open>
  C4 does not hold of the code. On an empty input file \<open>external_sort\<close> fails with
  \<^verbatim>\<open>AttributeError\<close>, whatever its other arguments: the partitioner returns no header,
  and \<^verbatim>\<open>header_row.strip()\<close> is called on \<^verbatim>\<open>None\<close>. On a file of a header line alone,
  with \<open>header = True\<close>, it fails with \<^verbatim>\<open>IndexError\<close>: no chunk is written, and
  \<^verbatim>\<open>os.listdir('./.tmp/')[0]\<close> indexes an empty list. No output file is produced in
  either case, and the workspace is left behind.
\<close>

theorem external_sort_empty_input:
  "external_sort md5 lsord ''in.csv'' sort_keys n_proc n_way max_size header delimiter overwrite
     empty_fs =
     Some (Inl AttributeError, \<lparr>outside = [''in.csv'' \<mapsto> []], workspace = Some []\<rparr>) \<and>
   external_sort md5 lsord ''in.csv'' sort_keys 1 n_way max_size True '','' overwrite
     header_only_fs =
     Some (Inl IndexError, \<lparr>outside = [''in.csv'' \<mapsto> ''a,b\<newline>''], workspace = Some []\<rparr>)"
proof -
  have p1: "create_temp_files ''in.csv'' max_size header empty_fs =
      (Inr ([], None), \<lparr>outside = [''in.csv'' \<mapsto> []], workspace = Some []\<rparr>)"
    by (simp add: create_temp_files_def empty_fs_def os_makedirs_def read_file_def resolve_in_csv)
  have p2: "create_temp_files ''in.csv'' max_size True header_only_fs =
      (Inr ([], Some ''a,b\<newline>''), \<lparr>outside = [''in.csv'' \<mapsto> ''a,b\<newline>''], workspace = Some []\<rparr>)"
    by (simp add: create_temp_files_def header_only_fs_def os_makedirs_def read_file_def
        resolve_in_csv LF_def CR_def)
  have h: "py_split (py_strip ''a,b\<newline>'') '','' = Inr [''a'', ''b'']"
    by (simp add: py_split_def py_strip_def is_space_def)
  have f: "finalize lsord ''in.csv'' overwrite \<lparr>outside = out, workspace = Some []\<rparr> =
      (Inl IndexError, \<lparr>outside = out, workspace = Some []\<rparr>)" for out
    by (simp add: finalize_def os_listdir_def arrange_Nil py_index_def Let_def)
  have a: "external_sort md5 lsord ''in.csv'' sort_keys n_proc n_way max_size header delimiter overwrite
     empty_fs =
     Some (Inl AttributeError, \<lparr>outside = [''in.csv'' \<mapsto> []], workspace = Some []\<rparr>)"
    by (simp add: external_sort_def p1)
  have b: "external_sort md5 lsord ''in.csv'' sort_keys 1 n_way max_size True '','' overwrite
     header_only_fs =
     Some (Inl IndexError, \<lparr>outside = [''in.csv'' \<mapsto> ''a,b\<newline>''], workspace = Some []\<rparr>)"
    by (simp add: external_sort_def p2 h sort_phase_noop merge_rounds_done f)
  from a b show ?thesis ..
qed

lemma resolve_in_sorted: "resolve ''in_sorted.csv'' = Out ''in_sorted.csv''"
  by (simp add: resolve_def)

lemma sorted_name_in_csv: "sorted_name ''in.csv'' = ''in_sorted.csv''"
  by (simp add: sorted_name_def)

lemma finalize_single:
  "finalize lsord ''in.csv'' overwrite \<lparr>outside = out, workspace = Some [(''split0.csv'', c)]\<rparr> =
     (Inr (), \<lparr>outside = out((if overwrite then ''in.csv'' else ''in_sorted.csv'') \<mapsto> c),
               workspace = None\<rparr>)"
  by (simp add: finalize_def os_listdir_def arrange_single py_index_def sorted_name_in_csv
      os_rename_def read_file_def os_remove_def write_file_def resolve_split0 resolve_in_csv
      resolve_in_sorted os_rmdir_def)

text \<open>
  C1 does not hold of the code. The sort phase submits no \<open>sort_file\<close> to the pool, so
  the chunks stay as the partitioner wrote them. On the input of the header \<open>a,b\<close> and
  the records \<open>(3, x)\<close>, \<open>(1, y)\<close>, \<open>(2, z)\<close>, which fits one chunk, the run succeeds
  and the output holds the records in their input order: the keys on column 0 are
  \<open>3, 1, 2\<close>, not ascending.
\<close>

theorem external_sort_leaves_unsorted:
  "external_sort md5 lsord ''in.csv'' [0] 1 2 100 True '','' False example_fs =
     Some (Inr (), \<lparr>outside = [''in.csv'' \<mapsto> example_input,
                               ''in_sorted.csv'' \<mapsto> ''3,x\<newline>1,y\<newline>2,z\<newline>''],
                    workspace = None\<rparr>) \<and>
   csv_reader '','' (universal_newlines ''3,x\<newline>1,y\<newline>2,z\<newline>'') =
     ([[''3'', ''x''], [''1'', ''y''], [''2'', ''z'']], None) \<and>
   map (sort_func [0]) [[''3'', ''x''], [''1'', ''y''], [''2'', ''z'']] =
     [Inr [''3''], Inr [''1''], Inr [''2'']] \<and>
   \<not> sorted [[''3''], [''1''], [''2'']]"
proof -
  have p: "create_temp_files ''in.csv'' 100 True example_fs =
      (Inr ([''./.tmp/split0.csv''], Some ''a,b\<newline>''),
       \<lparr>outside = [''in.csv'' \<mapsto> example_input],
        workspace = Some [(''split0.csv'', ''3,x\<newline>1,y\<newline>2,z\<newline>'')]\<rparr>)"
    by (simp add: create_temp_files_def example_fs_def example_input_def os_makedirs_def
        read_file_def write_file_def resolve_def split_name_def str_nat.simps digit_char_def
        LF_def CR_def Let_def)
  have h: "py_split (py_strip ''a,b\<newline>'') '','' = Inr [''a'', ''b'']"
    by (simp add: py_split_def py_strip_def is_space_def)
  have a: "external_sort md5 lsord ''in.csv'' [0] 1 2 100 True '','' False example_fs =
     Some (Inr (), \<lparr>outside = [''in.csv'' \<mapsto> example_input,
                               ''in_sorted.csv'' \<mapsto> ''3,x\<newline>1,y\<newline>2,z\<newline>''],
                    workspace = None\<rparr>)"
    by (simp add: external_sort_def p h sort_phase_noop merge_rounds_done finalize_single)
  have b: "csv_reader '','' (universal_newlines ''3,x\<newline>1,y\<newline>2,z\<newline>'') =
     ([[''3'', ''x''], [''1'', ''y''], [''2'', ''z'']], None)"
    by (simp add: csv_eval)
  have c: "map (sort_func [0]) [[''3'', ''x''], [''1'', ''y''], [''2'', ''z'']] =
     [Inr [''3''], Inr [''1''], Inr [''2'']]"
    by (simp add: py_index_def)
  have d: "\<not> sorted [[''3''], [''1''], [''2'']]" by simp
  from a b c d show ?thesis by (intro conjI)
qed

text \<open>
  C3 does not hold of the code. The header is written by the last merge only; when the
  input fits one chunk there is no merge, and the chunk, which holds no header, becomes
  the output. On the input of the lines \<open>name,age\<close> and \<open>bob,30\<close> the run succeeds and
  the output is the one line \<open>bob,30\<close>.
\<close>

theorem external_sort_drops_header:
  "external_sort md5 lsord ''in.csv'' [0] 1 2 100 True '','' True people_fs =
     Some (Inr (), \<lparr>outside = [''in.csv'' \<mapsto> ''bob,30\<newline>''], workspace = None\<rparr>) \<and>
   lines_of (universal_newlines ''name,age\<newline>bob,30\<newline>'') = [''name,age\<newline>'', ''bob,30\<newline>''] \<and>
   lines_of (universal_newlines ''bob,30\<newline>'') = [''bob,30\<newline>'']"
proof -
  have p: "create_temp_files ''in.csv'' 100 True people_fs =
      (Inr ([''./.tmp/split0.csv''], Some ''name,age\<newline>''),
       \<lparr>outside = [''in.csv'' \<mapsto> ''name,age\<newline>bob,30\<newline>''],
        workspace = Some [(''split0.csv'', ''bob,30\<newline>'')]\<rparr>)"
    by (simp add: create_temp_files_def people_fs_def os_makedirs_def
        read_file_def write_file_def resolve_def split_name_def str_nat.simps digit_char_def
        LF_def CR_def Let_def)
  have h: "py_split (py_strip ''name,age\<newline>'') '','' = Inr [''name'', ''age'']"
    by (simp add: py_split_def py_strip_def is_space_def)
  have a: "external_sort md5 lsord ''in.csv'' [0] 1 2 100 True '','' True people_fs =
     Some (Inr (), \<lparr>outside = [''in.csv'' \<mapsto> ''bob,30\<newline>''], workspace = None\<rparr>)"
    by (simp add: external_sort_def p h sort_phase_noop merge_rounds_done finalize_single)
  have b: "lines_of (universal_newlines ''name,age\<newline>bob,30\<newline>'') = [''name,age\<newline>'', ''bob,30\<newline>'']"
    "lines_of (universal_newlines ''bob,30\<newline>'') = [''bob,30\<newline>'']"
    by (simp_all add: LF_def CR_def)
  from a b show ?thesis by (intro conjI)
qed

lemma arrange_pair: "arrange lsord [a, b] = [a, b] \<or> arrange lsord [a, b] = [b, a]"
proof (cases "mset (lsord [a, b]) = mset [a, b]")
  case True
  from mset_eq_length [OF True] have "length (lsord [a, b]) = 2" by simp
  then obtain x y where l: "lsord [a, b] = [x, y]"
    by (auto simp: length_Suc_conv numeral_2_eq_2)
  with True have "(x = a \<and> y = b) \<or> (x = b \<and> y = a)"
    by (auto simp: add_eq_conv_ex)
  with l True show ?thesis by (auto simp: arrange_def)
next
  case False
  then show ?thesis by (simp add: arrange_def)
qed

lemma resolve_digest:
  "resolve (CHR ''.'' # CHR ''/'' # CHR ''.'' # CHR ''t'' # CHR ''m'' # CHR ''p'' # CHR ''/'' #
      hexdigest bs @ ''.csv'') = Tmp (hexdigest bs @ ''.csv'')"
  using hexdigest_chars [of bs] by (simp add: resolve_def)

lemma finalize_digest:
  "finalize lsord ''in.csv'' False \<lparr>outside = out, workspace = Some [(hexdigest bs @ ''.csv'', c)]\<rparr> =
     (Inr (), \<lparr>outside = out(''in_sorted.csv'' \<mapsto> c), workspace = None\<rparr>)"
  by (simp add: finalize_def os_listdir_def arrange_single py_index_def sorted_name_in_csv
      os_rename_def read_file_def os_remove_def write_file_def resolve_digest
      resolve_in_sorted os_rmdir_def)

lemma quoted_partition:
  "create_temp_files ''in.csv'' (3 / 1048576) True quoted_fs =
     (Inr ([''./.tmp/split0.csv'', ''./.tmp/split1.csv''], Some ''h\<newline>''),
      \<lparr>outside = [''in.csv'' \<mapsto> quoted_input],
       workspace = Some [(''split0.csv'', quotechar # ''x\<newline>''),
                         (''split1.csv'', CHR ''y'' # quotechar # '',1\<newline>'')]\<rparr>)"
  by (simp add: create_temp_files_def quoted_fs_def quoted_input_def
      os_makedirs_def read_file_def write_file_def resolve_def split_name_def str_nat.simps
      digit_char_def LF_def CR_def quotechar_def Let_def)

lemma quoted_rows:
  "read_rows ''./.tmp/split0.csv'' '',''
     \<lparr>outside = out, workspace = Some [(''split0.csv'', quotechar # ''x\<newline>''),
        (''split1.csv'', CHR ''y'' # quotechar # '',1\<newline>''), (n, [])]\<rparr> = ([[''x\<newline>'']], None)"
  "read_rows ''./.tmp/split1.csv'' '',''
     \<lparr>outside = out, workspace = Some [(''split0.csv'', quotechar # ''x\<newline>''),
        (''split1.csv'', CHR ''y'' # quotechar # '',1\<newline>''), (n, [])]\<rparr> =
     ([[[CHR ''y'', quotechar], ''1'']], None)"
  by (simp_all add: csv_eval read_file_def resolve_split0 resolve_split1)

lemma quoted_merge:
  "heapq_merge (sort_func [0]) [([[''x\<newline>'']], None), ([[[CHR ''y'', quotechar], ''1'']], None)] =
     ([[''x\<newline>''], [[CHR ''y'', quotechar], ''1'']], None)"
  "heapq_merge (sort_func [0]) [([[[CHR ''y'', quotechar], ''1'']], None), ([[''x\<newline>'']], None)] =
     ([[''x\<newline>''], [[CHR ''y'', quotechar], ''1'']], None)"
  by (simp_all add: heapq_merge_def py_index_def entry_less_def quotechar_def)

lemma quoted_written:
  "writerow (CHR '','') [''h''] @ writerow (CHR '','') [''x\<newline>''] @
     writerow (CHR '','') [[CHR ''y'', quotechar], ''1''] = quoted_output"
  by (simp add: writerow_def join_append_def needs_quotes_def quotechar_def CR_def LF_def
      quoted_output_def)

lemma comma_writer: "csv_writer '','' = Inr (writerow (CHR '',''))"
  by (simp add: csv_writer_def)

lemmas merge_steps = merge_files_def write_file_def os_remove_def resolve_merge_name
  resolve_split0 resolve_split1 comma_writer yield_rows_def Let_def

lemma quoted_merge_files:
  "merge_files md5 [''./.tmp/split0.csv'', ''./.tmp/split1.csv''] [0] (Some [''h'']) '',''
      \<lparr>outside = out, workspace = Some [(''split0.csv'', quotechar # ''x\<newline>''),
         (''split1.csv'', CHR ''y'' # quotechar # '',1\<newline>'')]\<rparr> =
     (Inr (), \<lparr>outside = out,
        workspace = Some [(hexdigest (md5 ''./.tmp/split0.csv./.tmp/split1.csv'') @ ''.csv'',
                           quoted_output)]\<rparr>)"
  "merge_files md5 [''./.tmp/split1.csv'', ''./.tmp/split0.csv''] [0] (Some [''h'']) '',''
      \<lparr>outside = out, workspace = Some [(''split0.csv'', quotechar # ''x\<newline>''),
         (''split1.csv'', CHR ''y'' # quotechar # '',1\<newline>'')]\<rparr> =
     (Inr (), \<lparr>outside = out,
        workspace = Some [(hexdigest (md5 ''./.tmp/split1.csv./.tmp/split0.csv'') @ ''.csv'',
                           quoted_output)]\<rparr>)"
  by (simp_all add: merge_steps quoted_rows quoted_merge quoted_written)

text \<open>
  C2 does not hold of the code. The partitioner cuts the input at every line end, also
  inside a quoted field. The input of the header \<open>h\<close> and the one record whose first
  field, quoted, is \<open>x\<close>, a line end and \<open>y\<close>, and whose second field is \<open>1\<close>, with a
  threshold of three characters: the record is cut into two chunks, each is read by the
  merge as a record of its own, and the output, whichever way the workspace is listed,
  holds two records (the field \<open>x\<close> with a line end; the fields \<open>y"\<close> and \<open>1\<close>)
  where the input has one.
\<close>

theorem external_sort_splits_record:
  "external_sort md5 lsord ''in.csv'' [0] 1 2 (3 / 1048576) True '','' False quoted_fs =
     Some (Inr (), \<lparr>outside = [''in.csv'' \<mapsto> quoted_input, ''in_sorted.csv'' \<mapsto> quoted_output],
                    workspace = None\<rparr>) \<and>
   csv_reader '','' (universal_newlines quoted_input) = ([[''h''], [''x\<newline>y'', ''1'']], None) \<and>
   csv_reader '','' (universal_newlines quoted_output) =
     ([[''h''], [''x\<newline>''], [[CHR ''y'', quotechar], ''1'']], None)"
proof -
  let ?out = "[''in.csv'' \<mapsto> quoted_input]"
  let ?s1 = "\<lparr>outside = ?out,
       workspace = Some [(''split0.csv'', quotechar # ''x\<newline>''),
                         (''split1.csv'', CHR ''y'' # quotechar # '',1\<newline>'')]\<rparr>"
  have h: "py_split (py_strip ''h\<newline>'') '','' = Inr [''h'']"
    by (simp add: py_split_def py_strip_def is_space_def)
  have mr: "\<exists>bs. merge_rounds md5 lsord [0] 2 [''h''] ?s1 =
      Some (Inr (), \<lparr>outside = ?out, workspace = Some [(hexdigest bs @ ''.csv'', quoted_output)]\<rparr>)"
  proof -
    consider (a) "arrange lsord [''split0.csv'', ''split1.csv''] = [''split0.csv'', ''split1.csv'']"
      | (b) "arrange lsord [''split0.csv'', ''split1.csv''] = [''split1.csv'', ''split0.csv'']"
      using arrange_pair by blast
    then show ?thesis
    proof cases
      case a
      have "merge_rounds md5 lsord [0] 2 [''h''] ?s1 =
          merge_rounds md5 lsord [0] 2 [''h'']
            \<lparr>outside = ?out,
             workspace = Some [(hexdigest (md5 ''./.tmp/split0.csv./.tmp/split1.csv'') @ ''.csv'',
                                quoted_output)]\<rparr>"
        by (subst merge_rounds.simps)
          (simp add: os_listdir_def a build_merge_tasks_def apply_async_def quoted_merge_files)
      then show ?thesis by (simp add: merge_rounds_done) blast
    next
      case b
      have "merge_rounds md5 lsord [0] 2 [''h''] ?s1 =
          merge_rounds md5 lsord [0] 2 [''h'']
            \<lparr>outside = ?out,
             workspace = Some [(hexdigest (md5 ''./.tmp/split1.csv./.tmp/split0.csv'') @ ''.csv'',
                                quoted_output)]\<rparr>"
        by (subst merge_rounds.simps)
          (simp add: os_listdir_def b build_merge_tasks_def apply_async_def quoted_merge_files)
      then show ?thesis by (simp add: merge_rounds_done) blast
    qed
  qed
  then obtain bs where mr': "merge_rounds md5 lsord [0] 2 [''h''] ?s1 =
      Some (Inr (), \<lparr>outside = ?out, workspace = Some [(hexdigest bs @ ''.csv'', quoted_output)]\<rparr>)"
    by blast
  have a: "external_sort md5 lsord ''in.csv'' [0] 1 2 (3 / 1048576) True '','' False quoted_fs =
     Some (Inr (), \<lparr>outside = [''in.csv'' \<mapsto> quoted_input, ''in_sorted.csv'' \<mapsto> quoted_output],
                    workspace = None\<rparr>)"
    by (simp add: external_sort_def quoted_partition h sort_phase_noop mr' finalize_digest)
  have b: "csv_reader '','' (universal_newlines quoted_input) = ([[''h''], [''x\<newline>y'', ''1'']], None)"
    by (simp add: csv_eval quoted_input_def)
  have c: "csv_reader '','' (universal_newlines quoted_output) =
     ([[''h''], [''x\<newline>''], [[CHR ''y'', quotechar], ''1'']], None)"
    by (simp add: csv_eval quoted_output_def)
  from a b c show ?thesis by (intro conjI)
qed

end
